theory Spec2Isabelle
  imports Complex_Main "HOL-Library.AList" "HOL-Library.Char_ord" "HOL-Library.List_Lexorder"
begin

section \<open>Values, errors and dictionaries\<close>

text \<open>
  The orchestration engine of \<^verbatim>\<open>flight_maneuvers/train.py\<close> (class
  \<^verbatim>\<open>NEAT_Trainer\<close>) is embedded function by function. The Python values that the
  engine inspects are the values of \<open>pyval\<close>: the constructor stands for the
  \<^verbatim>\<open>isinstance\<close> test that the source performs (\<open>POptimizer\<close>: an
  \<^verbatim>\<open>Optimizable\<close>, \<open>PScheduler\<close>: an \<^verbatim>\<open>LRScheduler\<close>, \<open>PDict\<close>: a
  \<^verbatim>\<open>Mapping\<close> with string keys, \<open>PSeq\<close>: a list or a tuple). Optimizers,
  schedulers and modules are opaque objects, named by a number.
\<close>

datatype seqkind = ListK | TupleK

datatype pyval =
    PNone
  | PInt int
  | PStr string
  | POptimizer nat
  | PScheduler nat
  | PModule nat
  | PDict "(string \<times> pyval) list"
  | PSeq seqkind "pyval list"

type_synonym pydict = "(string \<times> pyval) list"

text \<open>
  Every \<^verbatim>\<open>raise\<close> of the source, and every exception of an operation it uses. The last
  one, \<open>UntypedCounters\<close>, is not an exception of the source: it ends a run of
  \<^verbatim>\<open>fit\<close> in which a checkpoint has given the Trainer a counter that is not an integer
  (see \<open>fit_resume\<close>).
\<close>

datatype error =
    TypeError
  | KeyError string
  | IndexError
  | ZeroDivisionError
  | AssertionError
  | NotImplementedError string
  | MonitorKeyError pyval "pyval list"
  | RuntimeError "string list"
  | FileNotFoundError string
  | UntypedCounters pyval pyval

text \<open>
  \<^verbatim>\<open>d.update(other)\<close>: the entries of \<open>other\<close> are written into \<open>d\<close> in their
  order; a key that is present keeps its position, a new key goes to the end. Python's
  \<^verbatim>\<open>dict.update\<close> changes \<open>d\<close> in place and returns \<^verbatim>\<open>None\<close>.
\<close>

definition dict_update :: "('k \<times> 'v) list \<Rightarrow> ('k \<times> 'v) list \<Rightarrow> ('k \<times> 'v) list" where
  "dict_update d other = fold (\<lambda>(k, v). AList.update k v) other d"

definition dict_keys :: "('k \<times> 'v) list \<Rightarrow> 'k list" where
  "dict_keys d = map fst d"

text \<open>\<^verbatim>\<open>d[k]\<close> on a mapping with string keys.\<close>

definition dict_getitem :: "pydict \<Rightarrow> string \<Rightarrow> error + pyval" where
  "dict_getitem d k = (case map_of d k of None \<Rightarrow> Inl (KeyError k) | Some v \<Rightarrow> Inr v)"

text \<open>
  \<^verbatim>\<open>x[i]\<close> for an integer \<open>i\<close>: a sequence is indexed (negative indices count from
  the end), a string gives the one-character string, a mapping with string keys has no
  integer key, and every other value of the model is not subscriptable.
\<close>

definition seq_index :: "'a list \<Rightarrow> int \<Rightarrow> error + 'a" where
  "seq_index xs i =
     (if 0 \<le> i \<and> i < int (length xs) then Inr (xs ! nat i)
      else if i < 0 \<and> - int (length xs) \<le> i then Inr (xs ! nat (int (length xs) + i))
      else Inl IndexError)"

fun py_getitem :: "pyval \<Rightarrow> int \<Rightarrow> error + pyval" where
  "py_getitem (PSeq k xs) i = seq_index xs i"
| "py_getitem (PStr s) i = (case seq_index s i of Inl e \<Rightarrow> Inl e | Inr c \<Rightarrow> Inr (PStr [c]))"
| "py_getitem (PDict d) i = Inl (KeyError [])"
| "py_getitem PNone i = Inl TypeError"
| "py_getitem (PInt n) i = Inl TypeError"
| "py_getitem (POptimizer n) i = Inl TypeError"
| "py_getitem (PScheduler n) i = Inl TypeError"
| "py_getitem (PModule n) i = Inl TypeError"

section \<open>The optimizer/scheduler normalizer\<close>

fun is_optimizable :: "pyval \<Rightarrow> bool" where
  "is_optimizable (POptimizer n) = True"
| "is_optimizable v = False"

fun is_lr_scheduler :: "pyval \<Rightarrow> bool" where
  "is_lr_scheduler (PScheduler n) = True"
| "is_lr_scheduler v = False"

fun is_mapping :: "pyval \<Rightarrow> bool" where
  "is_mapping (PDict d) = True"
| "is_mapping v = False"

definition lr_sched_defaults :: pydict where
  "lr_sched_defaults =
     [(''interval'', PStr ''epoch''), (''frequency'', PInt 1), (''monitor'', PStr ''val_loss'')]"

text \<open>
  \<^verbatim>\<open>NEAT_Trainer._parse_optimizers_schedulers\<close>. The result is the pair
  \<^verbatim>\<open>(optimizer, scheduler_cfg)\<close>; the second component is \<open>None\<close> or a mapping.

  \<^item> The single-scheduler branch returns
    \<^verbatim>\<open>None, _lr_sched_defaults.update(scheduler=configure_optim_output)\<close>: the value
    of the call of \<^verbatim>\<open>update\<close>, which is \<^verbatim>\<open>None\<close>; the updated defaults are
    dropped.
  \<^item> The branch of a sequence of optimizers with one element returns
    \<^verbatim>\<open>configure_optim_output[0][0]\<close>: the element, subscripted once more.
  \<^item> \<^verbatim>\<open>all(...)\<close> over an empty sequence is true, so the empty sequence takes the
    first sequence branch.
\<close>

fun parse_optimizers_schedulers :: "pyval \<Rightarrow> error + (pyval \<times> pydict option)" where
  "parse_optimizers_schedulers (POptimizer n) = Inr (POptimizer n, None)"
| "parse_optimizers_schedulers (PScheduler n) =
     (let updated = dict_update lr_sched_defaults [(''scheduler'', PScheduler n)];
          returned_by_update = None
      in Inr (PNone, returned_by_update))"
| "parse_optimizers_schedulers (PDict m) = Inr (PNone, Some (dict_update lr_sched_defaults m))"
| "parse_optimizers_schedulers (PSeq k xs) =
     (if list_all is_optimizable xs then
        (if length xs = 1 then
           (case py_getitem (PSeq k xs) 0 of
              Inl e \<Rightarrow> Inl e
            | Inr x0 \<Rightarrow>
                (case py_getitem x0 0 of
                   Inl e \<Rightarrow> Inl e
                 | Inr x00 \<Rightarrow> Inr (x00, None)))
         else Inl (NotImplementedError ''BYOT only supports a single optimizer''))
      else if list_all (\<lambda>c. is_lr_scheduler c \<or> is_mapping c) xs then
        (case xs of
           [x] \<Rightarrow>
             (case parse_optimizers_schedulers x of
                Inl e \<Rightarrow> Inl e
              | Inr r \<Rightarrow> Inr (PNone, snd r))
         | _ \<Rightarrow> Inr (PNone, None))
      else
        (case xs of
           [a, b] \<Rightarrow>
             (case parse_optimizers_schedulers a of
                Inl e \<Rightarrow> Inl e
              | Inr ra \<Rightarrow>
                  (case parse_optimizers_schedulers b of
                     Inl e \<Rightarrow> Inl e
                   | Inr rb \<Rightarrow> Inr (fst ra, snd rb)))
         | _ \<Rightarrow> Inr (PNone, None)))"
| "parse_optimizers_schedulers v = Inr (PNone, None)"

section \<open>The state of the engine\<close>

text \<open>
  What a training or validation step of the model returns: a bare tensor, a mapping
  from metric names to values, or something else (\<^verbatim>\<open>None\<close>, for one). Metric
  values are opaque to the engine; they are numbers here.
\<close>

datatype "output" = OTensor real | OMapping "(string \<times> real) list" | OOther

text \<open>
  The model is an external collaborator. Its steps are given by their results per batch
  and batch index; \<open>validation_step_out\<close> is \<open>None\<close> when the module does not override
  \<^verbatim>\<open>validation_step\<close>.
\<close>

record lmodule =
  training_step_out :: "nat \<Rightarrow> nat \<Rightarrow> output"
  validation_step_out :: "(nat \<Rightarrow> nat \<Rightarrow> output) option"
  configure_optimizers_out :: pyval

text \<open>
  The calls that leave the engine are recorded in order: a hook dispatched through
  \<^verbatim>\<open>fabric.call\<close>, the model's training step, \<^verbatim>\<open>fabric.backward\<close>, the update of
  \<^verbatim>\<open>optimizer.step\<close>, \<^verbatim>\<open>optimizer.zero_grad\<close>, the model's validation step,
  \<^verbatim>\<open>model.lr_scheduler_step(scheduler, monitor)\<close> and the rank-zero warning.
\<close>

datatype event =
    Hook string
  | ModelTrainingStep nat
  | Backward
  | OptimizerStep
  | ZeroGrad
  | ModelValidationStep nat
  | LrSchedulerStep pyval "real option"
  | Warning

text \<open>The attributes of a \<^verbatim>\<open>NEAT_Trainer\<close> that the engine reads or writes.\<close>

record trainer =
  grad_accum_steps :: int
  should_stop :: bool
  global_step :: int
  current_epoch :: int
  max_steps :: "int option"
  max_epochs :: "int option"
  validation_frequency :: int
  current_train_return :: "output"
  current_val_return :: "output"
  checkpoint_dir :: string
  strategy_is_fsdp :: bool

text \<open>
  Everything outside the Trainer object: the trace of external calls, the global
  gradient-tracking switch of \<^verbatim>\<open>torch.set_grad_enabled\<close>, the store of mutable
  mappings (a state mapping is passed by reference: the caller and \<^verbatim>\<open>save\<close> hold the
  same address), the checkpoint files by path and the directory listings.
\<close>

record world =
  events :: "event list"
  grad_enabled :: bool
  heap :: "nat \<Rightarrow> pydict"
  next_addr :: nat
  files :: "string \<rightharpoonup> pydict"
  dirs :: "string \<rightharpoonup> string list"

definition call :: "string \<Rightarrow> world \<Rightarrow> world" where
  "call hook w = w\<lparr>events := events w @ [Hook hook]\<rparr>"

definition emit :: "event \<Rightarrow> world \<Rightarrow> world" where
  "emit e w = w\<lparr>events := events w @ [e]\<rparr>"

text \<open>A new, empty or filled, mapping object: \<^verbatim>\<open>state = {...}\<close>.\<close>

definition alloc :: "pydict \<Rightarrow> world \<Rightarrow> nat \<times> world" where
  "alloc d w = (next_addr w, w\<lparr>heap := (heap w)(next_addr w := d), next_addr := Suc (next_addr w)\<rparr>)"

text \<open>
  \<^verbatim>\<open>limit_batches\<close>: \<^verbatim>\<open>float("inf")\<close> by default, or an integer (a limit with a
  fractional part is not modelled).
\<close>

datatype limit = Unlimited | Limit int

fun limit_reached :: "nat \<Rightarrow> limit \<Rightarrow> bool" where
  "limit_reached n Unlimited = False"
| "limit_reached n (Limit l) = (l \<le> int n)"

section \<open>The scheduler stepping policy\<close>

text \<open>
  \<^verbatim>\<open>current_value % frequency\<close>, the left operand an integer. Python's remainder has
  the sign of the divisor, as \<open>mod\<close> on \<open>int\<close> has; a zero divisor raises, and no other
  value of the model is a right operand of an integer.
\<close>

fun py_mod :: "int \<Rightarrow> pyval \<Rightarrow> error + int" where
  "py_mod a (PInt b) = (if b = 0 then Inl ZeroDivisionError else Inr (a mod b))"
| "py_mod a v = Inl TypeError"

text \<open>A key of a dict must be hashable: a list and a dict are not, a tuple is when its elements are.\<close>

fun hashable :: "pyval \<Rightarrow> bool" where
  "hashable (PDict d) = False"
| "hashable (PSeq ListK xs) = False"
| "hashable (PSeq TupleK xs) = list_all hashable xs"
| "hashable v = True"

text \<open>
  One of the two blocks of \<^verbatim>\<open>step_scheduler\<close> that fill
  \<^verbatim>\<open>possible_monitor_vals\<close> (with the prefix \<^verbatim>\<open>train_\<close>, then \<^verbatim>\<open>val_\<close>):

  \<^verbatim>\<open>if isinstance(ret, torch.Tensor): possible_monitor_vals.update("train_loss", ret)\<close>
  \<^verbatim>\<open>elif isinstance(ret, Mapping): possible_monitor_vals.update({"train_" + k: v ...})\<close>

  The tensor branch passes two positional arguments to \<^verbatim>\<open>dict.update\<close>, which takes
  at most one: the call raises \<^verbatim>\<open>TypeError\<close>.
\<close>

fun monitor_candidates ::
  "string \<Rightarrow> output \<Rightarrow> (pyval \<times> real option) list \<Rightarrow> error + (pyval \<times> real option) list" where
  "monitor_candidates prefix (OTensor x) vals = Inl TypeError"
| "monitor_candidates prefix (OMapping m) vals =
     Inr (dict_update vals (map (\<lambda>(k, v). (PStr (prefix @ k), Some v)) m))"
| "monitor_candidates prefix OOther vals = Inr vals"

text \<open>
  ``assemble potential monitored values'': \<^verbatim>\<open>possible_monitor_vals\<close> starts as
  \<^verbatim>\<open>{None: None}\<close> and takes the candidates of the last training output, then those
  of the last validation output.
\<close>

definition possible_monitor_vals :: "trainer \<Rightarrow> error + (pyval \<times> real option) list" where
  "possible_monitor_vals t =
     (case monitor_candidates ''train_'' (current_train_return t) [(PNone, None)] of
        Inl e \<Rightarrow> Inl e
      | Inr train_vals \<Rightarrow> monitor_candidates ''val_'' (current_val_return t) train_vals)"

text \<open>
  \<^verbatim>\<open>NEAT_Trainer.step_scheduler\<close>. A return without a step leaves the world as it
  is; the step itself is the call of \<^verbatim>\<open>model.lr_scheduler_step\<close>. A monitor that is
  not a key of the candidates raises the \<^verbatim>\<open>KeyError\<close> that lists the possible keys.
\<close>

definition step_scheduler ::
  "trainer \<Rightarrow> pydict option \<Rightarrow> string \<Rightarrow> int \<Rightarrow> world \<Rightarrow> error + world" where
  "step_scheduler t scheduler_cfg level current_value w =
     (case scheduler_cfg of
        None \<Rightarrow> Inr w
      | Some cfg \<Rightarrow>
     (case dict_getitem cfg ''interval'' of
        Inl e \<Rightarrow> Inl e
      | Inr interval \<Rightarrow>
     if interval \<noteq> PStr level then Inr w else
     (case dict_getitem cfg ''frequency'' of
        Inl e \<Rightarrow> Inl e
      | Inr frequency \<Rightarrow>
     (case py_mod current_value frequency of
        Inl e \<Rightarrow> Inl e
      | Inr r \<Rightarrow>
     if r \<noteq> 0 then Inr w else
     (case possible_monitor_vals t of
        Inl e \<Rightarrow> Inl e
      | Inr vals \<Rightarrow>
     (case dict_getitem cfg ''monitor'' of
        Inl e \<Rightarrow> Inl e
      | Inr key \<Rightarrow>
     if \<not> hashable key then Inl TypeError else
     (case map_of vals key of
        None \<Rightarrow> Inl (MonitorKeyError key (dict_keys vals))
      | Some monitor \<Rightarrow>
     (case dict_getitem cfg ''scheduler'' of
        Inl e \<Rightarrow> Inl e
      | Inr scheduler \<Rightarrow> Inr (emit (LrSchedulerStep scheduler monitor) w)))))))))"

section \<open>The training loop\<close>

text \<open>
  \<^verbatim>\<open>NEAT_Trainer.training_step\<close>: the model's step, the loss taken from its result
  (\<^verbatim>\<open>outputs["loss"]\<close> unless the result is a tensor), the backward pass between its
  two hooks, and the result kept as \<^verbatim>\<open>_current_train_return\<close>.
\<close>

definition training_step ::
  "lmodule \<Rightarrow> nat \<Rightarrow> nat \<Rightarrow> trainer \<times> world \<Rightarrow> error + (trainer \<times> world)" where
  "training_step model batch batch_idx tw =
     (let outputs = training_step_out model batch batch_idx;
          w1 = emit (ModelTrainingStep batch_idx) (snd tw)
      in case (case outputs of
                 OTensor x \<Rightarrow> Inr x
               | OMapping m \<Rightarrow>
                   (case map_of m ''loss'' of None \<Rightarrow> Inl (KeyError ''loss'') | Some x \<Rightarrow> Inr x)
               | OOther \<Rightarrow> Inl TypeError) of
           Inl e \<Rightarrow> Inl e
         | Inr loss \<Rightarrow>
             Inr ((fst tw)\<lparr>current_train_return := outputs\<rparr>,
                  call ''on_after_backward'' (emit Backward (call ''on_before_backward'' w1))))"

text \<open>
  The body of the \<^verbatim>\<open>for\<close> loop of \<^verbatim>\<open>train_loop\<close>, batch by batch, from batch
  index \<open>batch_idx\<close>. The optimizer runs the closure (the training step) once and then
  updates. \<open>global_step\<close> grows by \<^verbatim>\<open>int(should_optim_step)\<close>. The loop is left by
  \<^verbatim>\<open>break\<close>, with the stop flag set, when the flag is set already, the batch limit is
  reached or \<open>max_steps\<close> is reached. The progress bar (\<^verbatim>\<open>progbar_wrapper\<close>,
  \<^verbatim>\<open>_format_iterable\<close>) only displays the outputs and is left out.
\<close>

fun train_batches ::
  "lmodule \<Rightarrow> pydict option \<Rightarrow> limit \<Rightarrow> nat \<Rightarrow> nat list \<Rightarrow> trainer \<times> world \<Rightarrow>
   error + (trainer \<times> world)" where
  "train_batches model scheduler_cfg limit_batches batch_idx [] tw = Inr tw"
| "train_batches model scheduler_cfg limit_batches batch_idx (batch # rest) tw =
     (let t = fst tw; w1 = call ''on_train_batch_start'' (snd tw) in
      if grad_accum_steps t = 0 then Inl ZeroDivisionError else
      let should_optim_step = (global_step t mod grad_accum_steps t = 0) in
      (case (if should_optim_step then
               (case training_step model batch batch_idx (t, call ''on_before_optimizer_step'' w1) of
                  Inl e \<Rightarrow> Inl e
                | Inr tw2 \<Rightarrow>
                    Inr (fst tw2, emit ZeroGrad (call ''on_before_zero_grad'' (emit OptimizerStep (snd tw2)))))
             else training_step model batch batch_idx (t, w1)) of
         Inl e \<Rightarrow> Inl e
       | Inr tw3 \<Rightarrow>
           (let t3 = fst tw3; w3 = call ''on_train_batch_end'' (snd tw3) in
            (case (if should_optim_step
                   then step_scheduler t3 scheduler_cfg ''step'' (global_step t3) w3
                   else Inr w3) of
               Inl e \<Rightarrow> Inl e
             | Inr w4 \<Rightarrow>
                 (let t4 = t3\<lparr>global_step := global_step t3 + (if should_optim_step then 1 else 0)\<rparr> in
                  if should_stop t4 \<or> limit_reached (batch_idx + 1) limit_batches
                     \<or> (case max_steps t4 of None \<Rightarrow> False | Some ms \<Rightarrow> ms \<le> global_step t4)
                  then Inr (t4\<lparr>should_stop := True\<rparr>, w4)
                  else train_batches model scheduler_cfg limit_batches (batch_idx + 1) rest (t4, w4))))))"

text \<open>\<^verbatim>\<open>NEAT_Trainer.train_loop\<close>: one epoch over the batches of \<open>train_loader\<close>.\<close>

definition train_loop ::
  "lmodule \<Rightarrow> nat list \<Rightarrow> limit \<Rightarrow> pydict option \<Rightarrow> trainer \<times> world \<Rightarrow>
   error + (trainer \<times> world)" where
  "train_loop model train_loader limit_batches scheduler_cfg tw =
     (case train_batches model scheduler_cfg limit_batches 0 train_loader
             (fst tw, call ''on_train_epoch_start'' (snd tw)) of
        Inl e \<Rightarrow> Inl e
      | Inr tw1 \<Rightarrow> Inr (fst tw1, call ''on_train_epoch_end'' (snd tw1)))"

text \<open>The number of optimizer updates in a trace.\<close>

definition optimizer_steps :: "world \<Rightarrow> nat" where
  "optimizer_steps w = length (filter (\<lambda>e. e = OptimizerStep) (events w))"

section \<open>The validation loop\<close>

text \<open>
  The body of the \<^verbatim>\<open>for\<close> loop of \<^verbatim>\<open>val_loop\<close>. The Boolean of the result says
  whether the loop was left by the \<^verbatim>\<open>return\<close> inside it (after the hook
  \<^verbatim>\<open>on_validation_epoch_end\<close>); then nothing after the loop runs.
\<close>

fun val_batches ::
  "(nat \<Rightarrow> nat \<Rightarrow> output) \<Rightarrow> limit \<Rightarrow> nat \<Rightarrow> nat list \<Rightarrow> trainer \<times> world \<Rightarrow>
   bool \<times> trainer \<times> world" where
  "val_batches validation_step limit_batches batch_idx [] tw = (False, tw)"
| "val_batches validation_step limit_batches batch_idx (batch # rest) tw =
     (if should_stop (fst tw) \<or> limit_reached batch_idx limit_batches
      then (True, fst tw, call ''on_validation_epoch_end'' (snd tw))
      else
        let w1 = call ''on_validation_batch_start'' (snd tw);
            out = validation_step batch batch_idx;
            w2 = call ''on_validation_batch_end'' (emit (ModelValidationStep batch_idx) w1)
        in val_batches validation_step limit_batches (batch_idx + 1) rest
             ((fst tw)\<lparr>current_val_return := out\<rparr>, w2))"

text \<open>
  \<^verbatim>\<open>NEAT_Trainer.val_loop\<close>. Gradient tracking is switched off before the loop;
  the statement that switches it on again is the last one of the function, after the
  loop.
\<close>

definition val_loop ::
  "lmodule \<Rightarrow> nat list option \<Rightarrow> limit \<Rightarrow> trainer \<times> world \<Rightarrow> trainer \<times> world" where
  "val_loop model val_loader limit_batches tw =
     (case val_loader of
        None \<Rightarrow> tw
      | Some batches \<Rightarrow>
          (case validation_step_out model of
             None \<Rightarrow> (fst tw, emit Warning (snd tw))
           | Some validation_step \<Rightarrow>
               let w1 = call ''on_validation_model_eval'' (snd tw);
                   w2 = w1\<lparr>grad_enabled := False\<rparr>;
                   w3 = call ''on_validation_epoch_start'' w2;
                   r = val_batches validation_step limit_batches 0 batches (fst tw, w3)
               in if fst r then snd r
                  else
                    let w4 = call ''on_validation_model_train''
                               (call ''on_validation_epoch_end'' (snd (snd r)))
                    in (fst (snd r), w4\<lparr>grad_enabled := True\<rparr>)))"

section \<open>Paths and checkpoint names\<close>

text \<open>\<^verbatim>\<open>os.path.join(a, b)\<close> on POSIX paths.\<close>

definition path_join :: "string \<Rightarrow> string \<Rightarrow> string" where
  "path_join a b =
     (if b \<noteq> [] \<and> hd b = CHR ''/'' then b
      else if a = [] \<or> last a = CHR ''/'' then a @ b
      else a @ ''/'' @ b)"

text \<open>The decimal digits of a natural number, and \<^verbatim>\<open>f"{n:04d}"\<close>.\<close>

fun nat_digits :: "nat \<Rightarrow> string" where
  "nat_digits n =
     (if n < 10 then [''0123456789'' ! n]
      else nat_digits (n div 10) @ [''0123456789'' ! (n mod 10)])"

declare nat_digits.simps [simp del]

definition zero_pad :: "nat \<Rightarrow> string \<Rightarrow> string" where
  "zero_pad width s = replicate (width - length s) CHR ''0'' @ s"

definition format_04d :: "int \<Rightarrow> string" where
  "format_04d n =
     (if n < 0 then ''-'' @ zero_pad 3 (nat_digits (nat (- n)))
      else zero_pad 4 (nat_digits (nat n)))"

definition checkpoint_name :: "int \<Rightarrow> string" where
  "checkpoint_name epoch = ''epoch-'' @ format_04d epoch @ ''.ckpt''"

section \<open>The file system and the backend's persistence\<close>

text \<open>
  Modelled from the spec: the file system and the distributed backend are external to
  the repository; the engine uses \<^verbatim>\<open>os.path.isdir\<close>, \<^verbatim>\<open>os.listdir\<close>,
  \<^verbatim>\<open>fabric.save(path, state)\<close> and \<^verbatim>\<open>fabric.load(path, state)\<close> (section 6:
  \<^verbatim>\<open>save(path, state)\<close>, \<^verbatim>\<open>load(path, state) -> leftover mapping\<close>; a missing
  directory is a valid "no prior checkpoint" signal).

  A directory is named by its path without trailing slashes; other names of the same
  directory (\<^verbatim>\<open>.\<close>, \<^verbatim>\<open>..\<close>, links) are not modelled. \<open>dirs\<close> gives the entries of
  each directory that exists, in the arbitrary order of \<^verbatim>\<open>os.listdir\<close>.
\<close>

definition rstrip_slashes :: "string \<Rightarrow> string" where
  "rstrip_slashes p = rev (dropWhile (\<lambda>c. c = CHR ''/'') (rev p))"

definition dir_key :: "string \<Rightarrow> string" where
  "dir_key d = (if rstrip_slashes d = [] then d else rstrip_slashes d)"

definition path_split :: "string \<Rightarrow> string \<times> string" where
  "path_split p =
     (let tail = rev (takeWhile (\<lambda>c. c \<noteq> CHR ''/'') (rev p));
          head = take (length p - length tail) p
      in (dir_key head, tail))"

definition isdir :: "world \<Rightarrow> string \<Rightarrow> bool" where
  "isdir w d = (dirs w (dir_key d) \<noteq> None)"

definition listdir :: "world \<Rightarrow> string \<Rightarrow> string list" where
  "listdir w d = (case dirs w (dir_key d) of None \<Rightarrow> [] | Some entries \<Rightarrow> entries)"

text \<open>
  Modelled from the spec: \<^verbatim>\<open>fabric.save(path, state)\<close> persists the mapping under
  \<open>path\<close>; the file becomes an entry of its directory, which is created when missing.
\<close>

definition fabric_save :: "string \<Rightarrow> pydict \<Rightarrow> world \<Rightarrow> world" where
  "fabric_save path content w =
     (let d = fst (path_split path); f = snd (path_split path)
      in w\<lparr>files := (files w)(path \<mapsto> content),
            dirs := (dirs w)(d \<mapsto> List.insert f (listdir w d))\<rparr>)"

text \<open>
  Modelled from the spec: \<^verbatim>\<open>fabric.load(path, state)\<close> restores every named
  component of the mapping \<open>state\<close> (at address \<open>a\<close>) in place from the persisted record
  and returns the leftover: the entries of the record that \<open>state\<close> does not name. The
  spec does not say what happens for a component that the record lacks; the backend
  raises \<^verbatim>\<open>KeyError\<close> then, and so does the model.
\<close>

definition fabric_load :: "string \<Rightarrow> nat \<Rightarrow> world \<Rightarrow> error + (pydict \<times> world)" where
  "fabric_load path a w =
     (case files w path of
        None \<Rightarrow> Inl (FileNotFoundError path)
      | Some checkpoint \<Rightarrow>
          (case filter (\<lambda>k. map_of checkpoint k = None) (dict_keys (heap w a)) of
             k # ks \<Rightarrow> Inl (KeyError k)
           | [] \<Rightarrow>
               let restored =
                     map (\<lambda>(k, v). (k, case map_of checkpoint k of None \<Rightarrow> v | Some v' \<Rightarrow> v'))
                       (heap w a);
                   remainder = filter (\<lambda>(k, v). k \<notin> set (dict_keys (heap w a))) checkpoint
               in Inr (remainder, w\<lparr>heap := (heap w)(a := restored)\<rparr>)))"

section \<open>The checkpoint manager\<close>

text \<open>\<^verbatim>\<open>d.pop(k)\<close>: the value, and the mapping without the key.\<close>

definition dict_pop :: "pydict \<Rightarrow> string \<Rightarrow> error + (pyval \<times> pydict)" where
  "dict_pop d k =
     (case map_of d k of None \<Rightarrow> Inl (KeyError k) | Some v \<Rightarrow> Inr (v, AList.delete k d))"

text \<open>\<^verbatim>\<open>if state is None: state = {}\<close>: the address of the mapping the function works on.\<close>

definition state_or_new :: "nat option \<Rightarrow> world \<Rightarrow> nat \<times> world" where
  "state_or_new state w = (case state of None \<Rightarrow> alloc [] w | Some a \<Rightarrow> (a, w))"

text \<open>
  How a call of \<^verbatim>\<open>load\<close> ends: the exception it raises, if any; the values of
  \<^verbatim>\<open>self.global_step\<close> and \<^verbatim>\<open>self.current_epoch\<close> at that moment, as the Python
  values they are (the source assigns whatever the checkpoint holds); and the world.
\<close>

record load_result =
  raised :: "error option"
  global_step_after :: pyval
  current_epoch_after :: pyval
  world_after :: world

text \<open>
  \<^verbatim>\<open>NEAT_Trainer.load\<close>:

  \<^verbatim>\<open>remainder = self.fabric.load(path, state)\<close>
  \<^verbatim>\<open>self.global_step = remainder.pop("global_step")\<close>
  \<^verbatim>\<open>self.current_epoch = remainder.pop("current_epoch")\<close>
  \<^verbatim>\<open>if remainder: raise RuntimeError(...)\<close>

  A \<^verbatim>\<open>pop\<close> of a missing key raises \<^verbatim>\<open>KeyError\<close> with the assignments before it
  done; the \<^verbatim>\<open>RuntimeError\<close> on the unused keys is raised with both counters assigned.
\<close>

definition load :: "trainer \<Rightarrow> nat option \<Rightarrow> string \<Rightarrow> world \<Rightarrow> load_result" where
  "load t state path w =
     (let aw = state_or_new state w;
          before = \<lparr>raised = None, global_step_after = PInt (global_step t),
                    current_epoch_after = PInt (current_epoch t), world_after = snd aw\<rparr>
      in
      (case fabric_load path (fst aw) (snd aw) of
         Inl e \<Rightarrow> before\<lparr>raised := Some e\<rparr>
       | Inr rw \<Rightarrow>
      (case dict_pop (fst rw) ''global_step'' of
         Inl e \<Rightarrow> before\<lparr>raised := Some e, world_after := snd rw\<rparr>
       | Inr g \<Rightarrow>
      (case dict_pop (snd g) ''current_epoch'' of
         Inl e \<Rightarrow> before\<lparr>raised := Some e, global_step_after := fst g, world_after := snd rw\<rparr>
       | Inr c \<Rightarrow>
           \<lparr>raised = (if snd c \<noteq> [] then Some (RuntimeError (dict_keys (snd c))) else None),
            global_step_after = fst g, current_epoch_after = fst c, world_after = snd rw\<rparr>))))"

text \<open>
  \<^verbatim>\<open>NEAT_Trainer.save\<close>:
  \<^verbatim>\<open>state.update(global_step=self.global_step, current_epoch=self.current_epoch)\<close>
  on the mapping object it was given (or on a new one), then \<^verbatim>\<open>fabric.save\<close> under
  \<^verbatim>\<open>os.path.join(self.checkpoint_dir, f"epoch-{self.current_epoch:04d}.ckpt")\<close>.
\<close>

definition save :: "trainer \<Rightarrow> nat option \<Rightarrow> world \<Rightarrow> world" where
  "save t state w =
     (let aw = state_or_new state w;
          a = fst aw;
          updated = dict_update (heap (snd aw) a)
                      [(''global_step'', PInt (global_step t)),
                       (''current_epoch'', PInt (current_epoch t))];
          w1 = (snd aw)\<lparr>heap := (heap (snd aw))(a := updated)\<rparr>
      in fabric_save (path_join (checkpoint_dir t) (checkpoint_name (current_epoch t))) updated w1)"

text \<open>
  \<^verbatim>\<open>NEAT_Trainer.get_latest_checkpoint\<close>: \<^verbatim>\<open>sorted(os.listdir(checkpoint_dir))\<close>
  orders the names as strings, that is lexicographically by character code, which is
  the order of \<open>string\<close> here; the result is
  \<^verbatim>\<open>os.path.join(checkpoint_dir, items[-1])\<close>.
\<close>

definition get_latest_checkpoint :: "world \<Rightarrow> string \<Rightarrow> string option" where
  "get_latest_checkpoint w dir =
     (if \<not> isdir w dir then None
      else
        let items = sort (listdir w dir)
        in if items = [] then None else Some (path_join dir (last items)))"

section \<open>The Trainer\<close>

text \<open>\<^verbatim>\<open>self.max_epochs is not None and self.current_epoch >= self.max_epochs\<close>.\<close>

definition max_epochs_reached :: "trainer \<Rightarrow> bool" where
  "max_epochs_reached t = (case max_epochs t of None \<Rightarrow> False | Some m \<Rightarrow> m \<le> current_epoch t)"

text \<open>
  The resume block of \<^verbatim>\<open>fit\<close> (``load last checkpoint if available''): the
  directory test is on the argument \<open>ckpt_path\<close>, the search for the latest checkpoint
  is in \<^verbatim>\<open>self.checkpoint_dir\<close>. An exception of \<^verbatim>\<open>load\<close> leaves \<^verbatim>\<open>fit\<close>.

  The counters of the Trainer record are integers, as \<^verbatim>\<open>__init__\<close> and the loops make
  them. When \<^verbatim>\<open>load\<close> returns with a counter that is not an integer, the source goes
  on with that value; the record cannot hold it, and the run is not followed further:
  it ends with \<open>UntypedCounters\<close>.
\<close>

definition fit_resume ::
  "nat \<Rightarrow> string option \<Rightarrow> trainer \<times> world \<Rightarrow> error + (trainer \<times> world)" where
  "fit_resume state ckpt_path tw =
     (case ckpt_path of
        None \<Rightarrow> Inr tw
      | Some p \<Rightarrow>
          if \<not> isdir (snd tw) p then Inr tw
          else
            (case get_latest_checkpoint (snd tw) (checkpoint_dir (fst tw)) of
               None \<Rightarrow> Inr tw
             | Some latest_checkpoint_path \<Rightarrow>
                 (let r = load (fst tw) (Some state) latest_checkpoint_path (snd tw) in
                  (case raised r of
                     Some e \<Rightarrow> Inl e
                   | None \<Rightarrow>
                       (case (global_step_after r, current_epoch_after r) of
                          (PInt gs, PInt ce) \<Rightarrow>
                            (let t1 = (fst tw)\<lparr>global_step := gs, current_epoch := ce\<rparr> in
                             if max_epochs_reached t1
                             then Inr (t1\<lparr>should_stop := True\<rparr>, world_after r)
                             else Inr (t1, world_after r))
                        | _ \<Rightarrow>
                            Inl (UntypedCounters (global_step_after r) (current_epoch_after r)))))))"

text \<open>
  The \<^verbatim>\<open>while not self.should_stop\<close> loop of \<^verbatim>\<open>fit\<close>. With neither
  \<open>max_epochs\<close> nor \<open>max_steps\<close> the loop need not end: the first argument bounds the
  number of epochs, and \<open>None\<close> says that the bound was too small.
  \<^verbatim>\<open>should_validate\<close> is \<^verbatim>\<open>self.current_epoch % self.validation_frequency == 0\<close>.
\<close>

fun fit_epochs ::
  "nat \<Rightarrow> lmodule \<Rightarrow> pydict option \<Rightarrow> nat list \<Rightarrow> nat list option \<Rightarrow> nat \<Rightarrow> trainer \<times> world \<Rightarrow>
   (error + (trainer \<times> world)) option" where
  "fit_epochs fuel model scheduler_cfg train_loader val_loader state tw =
     (if should_stop (fst tw) then Some (Inr tw)
      else
        (case fuel of
           0 \<Rightarrow> None
         | Suc fuel' \<Rightarrow>
        (case train_loop model train_loader Unlimited scheduler_cfg tw of
           Inl e \<Rightarrow> Some (Inl e)
         | Inr tw1 \<Rightarrow>
        if validation_frequency (fst tw1) = 0 then Some (Inl ZeroDivisionError)
        else
          (let tw2 = (if current_epoch (fst tw1) mod validation_frequency (fst tw1) = 0
                      then val_loop model val_loader Unlimited tw1 else tw1)
           in
           (case step_scheduler (fst tw2) scheduler_cfg ''epoch'' (current_epoch (fst tw2)) (snd tw2) of
              Inl e \<Rightarrow> Some (Inl e)
            | Inr w3 \<Rightarrow>
                (let t4 = (fst tw2)\<lparr>current_epoch := current_epoch (fst tw2) + 1\<rparr>;
                     t5 = (if max_epochs_reached t4 then t4\<lparr>should_stop := True\<rparr> else t4)
                 in fit_epochs fuel' model scheduler_cfg train_loader val_loader state
                      (t5, save t5 (Some state) w3)))))))"

declare fit_epochs.simps [simp del]

text \<open>
  \<^verbatim>\<open>NEAT_Trainer.fit\<close>: the strategy check, the normalizer on the model's
  \<^verbatim>\<open>configure_optimizers()\<close>, the assertion that there is an optimizer, the state
  mapping \<^verbatim>\<open>{"model": model, "optim": optimizer, "scheduler": scheduler_cfg}\<close>, the
  resume block, the epochs, and the reset of the stop flag.
\<close>

definition fit ::
  "nat \<Rightarrow> lmodule \<Rightarrow> nat list \<Rightarrow> nat list option \<Rightarrow> string option \<Rightarrow> trainer \<times> world \<Rightarrow>
   (error + (trainer \<times> world)) option" where
  "fit fuel model train_loader val_loader ckpt_path tw =
     (if strategy_is_fsdp (fst tw) then Some (Inl (NotImplementedError ''BYOT currently does not support FSDP''))
      else
        (case parse_optimizers_schedulers (configure_optimizers_out model) of
           Inl e \<Rightarrow> Some (Inl e)
         | Inr os \<Rightarrow>
        if fst os = PNone then Some (Inl AssertionError)
        else
          (let scheduler_cfg = snd os;
               aw = alloc [(''model'', PModule 0), (''optim'', fst os),
                           (''scheduler'', (case scheduler_cfg of None \<Rightarrow> PNone | Some c \<Rightarrow> PDict c))]
                      (snd tw)
           in
           (case fit_resume (fst aw) ckpt_path (fst tw, snd aw) of
              Inl e \<Rightarrow> Some (Inl e)
            | Inr tw1 \<Rightarrow>
                (case fit_epochs fuel model scheduler_cfg train_loader val_loader (fst aw) tw1 of
                   None \<Rightarrow> None
                 | Some (Inl e) \<Rightarrow> Some (Inl e)
                 | Some (Inr tw2) \<Rightarrow> Some (Inr ((fst tw2)\<lparr>should_stop := False\<rparr>, snd tw2)))))))"

section \<open>Concrete inputs\<close>

text \<open>
  \<^verbatim>\<open>NEAT_Trainer()\<close> with the default arguments of \<^verbatim>\<open>__init__\<close>, and a world in
  which nothing has happened yet.
\<close>

definition new_trainer :: trainer where
  "new_trainer =
     \<lparr>grad_accum_steps = 1, should_stop = False, global_step = 0, current_epoch = 0,
      max_steps = None, max_epochs = Some 1000, validation_frequency = 1,
      current_train_return = OMapping [], current_val_return = OMapping [],
      checkpoint_dir = ''logs/checkpoints'', strategy_is_fsdp = False\<rparr>"

definition new_world :: world where
  "new_world =
     \<lparr>events = [], grad_enabled = True, heap = (\<lambda>a. []), next_addr = 0,
      files = Map.empty, dirs = Map.empty\<rparr>"

text \<open>A module whose training and validation steps return the same value for every batch.\<close>

definition constant_module :: "output \<Rightarrow> pyval \<Rightarrow> lmodule" where
  "constant_module out conf =
     \<lparr>training_step_out = (\<lambda>batch batch_idx. out),
      validation_step_out = Some (\<lambda>batch batch_idx. out),
      configure_optimizers_out = conf\<rparr>"

text \<open>The components of the state mapping that \<^verbatim>\<open>fit\<close> assembles, without a scheduler.\<close>

definition components :: pydict where
  "components = [(''model'', PModule 0), (''optim'', POptimizer 0), (''scheduler'', PNone)]"

text \<open>A world whose directory \<^verbatim>\<open>ckpts\<close> lists three checkpoints, in this order.\<close>

definition listing_world :: world where
  "listing_world =
     new_world\<lparr>dirs := [''ckpts'' \<mapsto> [''epoch-0001.ckpt'', ''epoch-0010.ckpt'', ''epoch-0002.ckpt'']]\<rparr>"

text \<open>
  A world whose directory \<^verbatim>\<open>resume\<close> holds one checkpoint, written after epoch 2 at
  global step 10; there is no directory \<^verbatim>\<open>logs/checkpoints\<close>.
\<close>

definition resume_world :: world where
  "resume_world =
     new_world\<lparr>dirs := [''resume'' \<mapsto> [''epoch-0002.ckpt'']],
               files := [''resume/epoch-0002.ckpt'' \<mapsto>
                  components @ [(''global_step'', PInt 10), (''current_epoch'', PInt 2)]]\<rparr>"


section \<open>Dictionaries: lookup after update, delete and filter\<close>

lemma map_of_dict_update:
  "map_of (dict_update d other) k =
     (case map_of (rev other) k of None \<Rightarrow> map_of d k | Some v \<Rightarrow> Some v)"
  unfolding dict_update_def
proof (induction other arbitrary: d)
  case Nil
  then show ?case by simp
next
  case (Cons p other)
  obtain k' v' where p: "p = (k', v')" by (cases p)
  show ?case
    by (simp add: Cons.IH p update_conv' map_add_def split: option.splits)
qed

lemma update_absent: "k \<notin> fst ` set d \<Longrightarrow> AList.update k v d = d @ [(k, v)]"
  by (induction d) auto

lemma map_of_filter_key:
  "map_of (filter (\<lambda>(k, v). P k) xs) k = (if P k then map_of xs k else None)"
  by (induction xs) auto

lemma key_present: "k \<in> set (dict_keys d) \<Longrightarrow> \<exists>v. map_of d k = Some v"
  by (cases "map_of d k") (auto simp: dict_keys_def map_of_eq_None_iff)

lemma present_key: "map_of d k = Some v \<Longrightarrow> k \<in> set (dict_keys d)"
  unfolding dict_keys_def by (drule map_of_SomeD) force

section \<open>The normalizer on single objects and on sequences of optimizers\<close>

text \<open>
  Claim C2, on the code: a single scheduler object is normalized to the pair of no
  optimizer and \<^emph>\<open>no\<close> scheduler configuration. The claimed configuration (the
  scheduler with the defaults \<open>interval = epoch\<close>, \<open>frequency = 1\<close>,
  \<open>monitor = val_loss\<close>) is built by \<^verbatim>\<open>_lr_sched_defaults.update\<close>, whose return
  value \<^verbatim>\<open>None\<close> is what the function returns.
\<close>

theorem parse_single_scheduler_returns_no_config:
  "parse_optimizers_schedulers (PScheduler s) = Inr (PNone, None)"
  by simp

text \<open>
  Claim C5, on the code: a sequence whose only element is an optimizer is not normalized
  to that optimizer; \<^verbatim>\<open>configure_optim_output[0][0]\<close> subscripts the optimizer and
  raises \<^verbatim>\<open>TypeError\<close>. This holds for a list and for a tuple.
\<close>

theorem parse_one_optimizer_sequence_raises:
  "parse_optimizers_schedulers (PSeq k [POptimizer n]) = Inl TypeError"
  by (simp add: seq_index_def)

text \<open>
  The other half of claim C5 holds on the code: a sequence of two or more optimizers
  raises the error about a single supported optimizer. (So does the empty sequence.)
\<close>

lemma parse_many_optimizers_raises:
  "list_all is_optimizable xs \<Longrightarrow> length xs \<noteq> 1 \<Longrightarrow>
   parse_optimizers_schedulers (PSeq k xs) =
     Inl (NotImplementedError ''BYOT only supports a single optimizer'')"
  by simp

section \<open>Gradient accumulation in the training loop\<close>

text \<open>
  Claim C1, on the code: with the accumulation factor 2 and four batches, starting from
  \<open>global_step = 0\<close> with no limit and no scheduler, one epoch performs one optimizer
  step and raises \<open>global_step\<close> by one, not by \<open>4 div 2 = 2\<close>. After the first
  batch \<open>global_step\<close> is 1; it only grows on a batch that steps, and a batch steps only
  when \<open>global_step mod 2 = 0\<close>, so no later batch steps.
\<close>

theorem train_loop_factor_two_steps_once:
  "(case train_loop (constant_module (OTensor 0.5) (POptimizer 0)) [0, 1, 2, 3] Unlimited None
          (new_trainer\<lparr>grad_accum_steps := 2\<rparr>, new_world) of
      Inl e \<Rightarrow> False
    | Inr tw \<Rightarrow> global_step (fst tw) = 1 \<and> optimizer_steps (snd tw) = 1)"
  by (simp add: train_loop_def training_step_def call_def emit_def new_trainer_def new_world_def
      constant_module_def optimizer_steps_def step_scheduler_def Let_def)

text \<open>
  Why: a batch that finds \<open>global_step\<close> off a multiple of the factor neither steps
  nor changes \<open>global_step\<close>, so no batch after it steps either.
\<close>

lemma optimizer_steps_call [simp]: "optimizer_steps (call h w) = optimizer_steps w"
  by (simp add: optimizer_steps_def call_def)

lemma optimizer_steps_emit:
  "optimizer_steps (emit e w) = optimizer_steps w + (if e = OptimizerStep then 1 else 0)"
  by (simp add: optimizer_steps_def emit_def)

lemma training_step_effect:
  "training_step model batch i tw = Inr tw' \<Longrightarrow>
   global_step (fst tw') = global_step (fst tw) \<and> grad_accum_steps (fst tw') = grad_accum_steps (fst tw) \<and>
   should_stop (fst tw') = should_stop (fst tw) \<and> max_steps (fst tw') = max_steps (fst tw) \<and>
   optimizer_steps (snd tw') = optimizer_steps (snd tw)"
  by (auto simp: training_step_def Let_def optimizer_steps_emit split: sum.splits)

lemma train_batches_off_multiple:
  "global_step (fst tw) mod grad_accum_steps (fst tw) \<noteq> 0 \<Longrightarrow>
   train_batches model cfg lb i batches tw = Inr tw' \<Longrightarrow>
   global_step (fst tw') = global_step (fst tw) \<and> optimizer_steps (snd tw') = optimizer_steps (snd tw)"
proof (induction batches arbitrary: i tw)
  case Nil
  then show ?case by simp
next
  case (Cons batch rest)
  from Cons.prems(2) have nz: "grad_accum_steps (fst tw) \<noteq> 0"
    by (auto simp: Let_def split: if_splits)
  obtain tw3 where ts: "training_step model batch i (fst tw, call ''on_train_batch_start'' (snd tw)) = Inr tw3"
    using Cons.prems nz by (auto simp: Let_def split: sum.splits)
  note eff = training_step_effect [OF ts]
  let ?w4 = "call ''on_train_batch_end'' (snd tw3)"
  show ?case
  proof (cases "should_stop (fst tw3) \<or> limit_reached (i + 1) lb
         \<or> (case max_steps (fst tw3) of None \<Rightarrow> False | Some ms \<Rightarrow> ms \<le> global_step (fst tw3))")
    case True
    then have "tw' = ((fst tw3)\<lparr>should_stop := True\<rparr>, ?w4)"
      using Cons.prems nz ts by (auto simp: Let_def)
    then show ?thesis using eff by simp
  next
    case False
    then have rec: "train_batches model cfg lb (i + 1) rest (fst tw3, ?w4) = Inr tw'"
      using Cons.prems nz ts by (auto simp: Let_def)
    have "global_step (fst (fst tw3, ?w4)) mod grad_accum_steps (fst (fst tw3, ?w4)) \<noteq> 0"
      using Cons.prems(1) eff by simp
    from Cons.IH [OF this rec] show ?thesis using eff by simp
  qed
qed

text \<open>
  With the factor 1 every batch steps: an epoch over \<open>N\<close> batches (no scheduler, no
  limits, a model that returns a tensor) performs \<open>N\<close> optimizer steps and raises
  \<open>global_step\<close> by \<open>N\<close>.
\<close>

lemma train_batches_factor_one:
  "grad_accum_steps (fst tw) = 1 \<Longrightarrow> \<not> should_stop (fst tw) \<Longrightarrow> max_steps (fst tw) = None \<Longrightarrow>
   \<forall>b i. \<exists>x. training_step_out model b i = OTensor x \<Longrightarrow>
   \<exists>tw'. train_batches model None Unlimited i batches tw = Inr tw' \<and>
     global_step (fst tw') = global_step (fst tw) + int (length batches) \<and>
     optimizer_steps (snd tw') = optimizer_steps (snd tw) + length batches"
proof (induction batches arbitrary: i tw)
  case Nil
  then show ?case by simp
next
  case (Cons batch rest)
  obtain x where out: "training_step_out model batch i = OTensor x"
    using Cons.prems(4) by blast
  let ?t4 = "(fst tw)\<lparr>current_train_return := OTensor x, global_step := global_step (fst tw) + 1\<rparr>"
  let ?w4 = "call ''on_train_batch_end'' (emit ZeroGrad (call ''on_before_zero_grad'' (emit OptimizerStep
      (call ''on_after_backward'' (emit Backward (call ''on_before_backward'' (emit (ModelTrainingStep i)
        (call ''on_before_optimizer_step'' (call ''on_train_batch_start'' (snd tw))))))))))"
  have step: "train_batches model None Unlimited i (batch # rest) tw =
      train_batches model None Unlimited (i + 1) rest (?t4, ?w4)"
    using Cons.prems(1,2,3) out by (simp add: Let_def training_step_def step_scheduler_def)
  have "\<exists>tw'. train_batches model None Unlimited (i + 1) rest (?t4, ?w4) = Inr tw' \<and>
     global_step (fst tw') = global_step (fst (?t4, ?w4)) + int (length rest) \<and>
     optimizer_steps (snd tw') = optimizer_steps (snd (?t4, ?w4)) + length rest"
    using Cons.prems by (intro Cons.IH) simp_all
  then show ?case
    unfolding step by (auto simp: optimizer_steps_emit)
qed

section \<open>Monitor resolution in the scheduler stepping policy\<close>

text \<open>
  Claim C3, on the code: when the last training output is a bare tensor and the policy
  reaches monitor resolution, no candidate \<open>train_loss\<close> is built; the call of
  \<^verbatim>\<open>possible_monitor_vals.update("train_loss", ...)\<close> raises \<^verbatim>\<open>TypeError\<close>, here
  for a scheduler that monitors \<open>train_loss\<close> at the epoch level.
\<close>

theorem step_scheduler_tensor_output_raises:
  "step_scheduler (new_trainer\<lparr>current_train_return := OTensor 0.5\<rparr>)
     (Some [(''interval'', PStr ''epoch''), (''frequency'', PInt 1),
            (''monitor'', PStr ''train_loss''), (''scheduler'', PScheduler 0)])
     ''epoch'' 0 new_world = Inl TypeError"
  by (simp add: step_scheduler_def possible_monitor_vals_def dict_getitem_def new_trainer_def)

section \<open>Gradient tracking around the validation loop\<close>

text \<open>
  Claim C4, on the code: when the stop flag is set and the validation loader has a
  batch, the validation loop returns from inside the loop and gradient tracking, which
  was enabled before the call, is disabled afterwards.
\<close>

theorem val_loop_stop_flag_leaves_grad_disabled:
  "grad_enabled new_world \<and>
   \<not> grad_enabled (snd (val_loop (constant_module (OTensor 0.5) (POptimizer 0)) (Some [0, 1])
        Unlimited (new_trainer\<lparr>should_stop := True\<rparr>, new_world)))"
  by (simp add: val_loop_def call_def emit_def new_trainer_def new_world_def constant_module_def
      Let_def)

text \<open>In general, for every nonempty loader and every limit.\<close>

lemma val_loop_early_return_leaves_grad_disabled:
  "should_stop (fst tw) \<Longrightarrow> validation_step_out model = Some vs \<Longrightarrow>
   \<not> grad_enabled (snd (val_loop model (Some (batch # rest)) lb tw))"
  by (simp add: val_loop_def Let_def call_def)

text \<open>The same on the other early exit: the batch limit is reached at the second batch.\<close>

lemma val_loop_batch_limit_leaves_grad_disabled:
  "\<not> grad_enabled (snd (val_loop (constant_module (OTensor 0.5) (POptimizer 0)) (Some [0, 1])
        (Limit 1) (new_trainer, new_world)))"
  by (simp add: val_loop_def call_def emit_def new_trainer_def new_world_def constant_module_def
      Let_def)

text \<open>On normal completion gradient tracking is enabled again.\<close>

lemma val_batches_completes:
  "\<not> should_stop (fst tw) \<Longrightarrow> \<not> fst (val_batches vs Unlimited i batches tw)"
  by (induction batches arbitrary: i tw) (simp_all add: Let_def)

lemma val_loop_completion_enables_grad:
  "\<not> should_stop (fst tw) \<Longrightarrow> validation_step_out model = Some vs \<Longrightarrow>
   grad_enabled (snd (val_loop model (Some batches) Unlimited tw))"
  by (simp add: val_loop_def Let_def val_batches_completes)

section \<open>The checkpoint manager\<close>

lemma heap_save:
  "heap (save t (Some a) w) a =
     dict_update (heap w a)
       [(''global_step'', PInt (global_step t)), (''current_epoch'', PInt (current_epoch t))]"
  by (simp add: save_def state_or_new_def fabric_save_def Let_def)

lemma heap_save_other: "b \<noteq> a \<Longrightarrow> heap (save t (Some a) w) b = heap w b"
  by (simp add: save_def state_or_new_def fabric_save_def Let_def)

lemma files_save:
  "files (save t (Some a) w) (path_join (checkpoint_dir t) (checkpoint_name (current_epoch t))) =
     Some (dict_update (heap w a)
       [(''global_step'', PInt (global_step t)), (''current_epoch'', PInt (current_epoch t))])"
  by (simp add: save_def state_or_new_def fabric_save_def Let_def)

text \<open>
  Claim C10: \<^verbatim>\<open>save\<close> changes the mapping it was given (the mapping at the caller's
  address \<open>a\<close>) in place. After the call that mapping has \<open>global_step\<close> and
  \<open>current_epoch\<close> bound to the Trainer's counters, whether or not the keys were there
  before; every other key is bound as before; and no other mapping of the store is
  changed.
\<close>

theorem save_updates_state_in_place:
  "map_of (heap (save t (Some a) w) a) ''global_step'' = Some (PInt (global_step t)) \<and>
   map_of (heap (save t (Some a) w) a) ''current_epoch'' = Some (PInt (current_epoch t)) \<and>
   (\<forall>k. k \<noteq> ''global_step'' \<and> k \<noteq> ''current_epoch'' \<longrightarrow>
        map_of (heap (save t (Some a) w) a) k = map_of (heap w a) k) \<and>
   (\<forall>b. b \<noteq> a \<longrightarrow> heap (save t (Some a) w) b = heap w b)"
  by (simp add: heap_save heap_save_other map_of_dict_update)

theorem save_updates_state_in_place_witness:
  "map_of (heap (save (new_trainer\<lparr>global_step := 15, current_epoch := 3\<rparr>) (Some 0)
             (new_world\<lparr>heap := (\<lambda>a. components)\<rparr>)) 0) ''global_step'' = Some (PInt 15) \<and>
   map_of (heap (save (new_trainer\<lparr>global_step := 15, current_epoch := 3\<rparr>) (Some 0)
             (new_world\<lparr>heap := (\<lambda>a. components)\<rparr>)) 0) ''current_epoch'' = Some (PInt 3) \<and>
   map_of (heap (save (new_trainer\<lparr>global_step := 15, current_epoch := 3\<rparr>) (Some 0)
             (new_world\<lparr>heap := (\<lambda>a. components)\<rparr>)) 0) ''optim'' = Some (POptimizer 0) \<and>
   heap (save (new_trainer\<lparr>global_step := 15, current_epoch := 3\<rparr>) (Some 0)
             (new_world\<lparr>heap := (\<lambda>a. components)\<rparr>)) 1 = components"
  using save_updates_state_in_place
          [of "new_trainer\<lparr>global_step := 15, current_epoch := 3\<rparr>" 0
              "new_world\<lparr>heap := (\<lambda>a. components)\<rparr>"]
  by (simp add: new_trainer_def components_def)

lemma fabric_load_covered:
  assumes "files w path = Some ckpt"
    and "\<forall>k\<in>set (dict_keys (heap w b)). map_of ckpt k \<noteq> None"
  shows "fabric_load path b w =
     Inr (filter (\<lambda>(k, v). k \<notin> set (dict_keys (heap w b))) ckpt,
          w\<lparr>heap := (heap w)(b := map (\<lambda>(k, v). (k, case map_of ckpt k of None \<Rightarrow> v | Some v' \<Rightarrow> v')) (heap w b))\<rparr>)"
proof -
  have "filter (\<lambda>k. map_of ckpt k = None) (dict_keys (heap w b)) = []"
    using assms(2) by (auto simp: filter_empty_conv)
  then show ?thesis
    using assms(1) by (simp add: fabric_load_def)
qed

lemma fabric_load_subset:
  assumes "files w path = Some ckpt"
    and "set (dict_keys (heap w b)) \<subseteq> set (dict_keys ckpt)"
  shows "\<exists>w1. fabric_load path b w =
     Inr (filter (\<lambda>(k, v). k \<notin> set (dict_keys (heap w b))) ckpt, w1)"
proof -
  have "\<forall>k\<in>set (dict_keys (heap w b)). map_of ckpt k \<noteq> None"
    using assms(2) key_present by fastforce
  from fabric_load_covered [OF assms(1) this] show ?thesis by blast
qed

lemma load_of_remainder:
  "fabric_load path b w = Inr (remainder, w1) \<Longrightarrow>
   map_of remainder ''global_step'' = Some g \<Longrightarrow>
   map_of (AList.delete ''global_step'' remainder) ''current_epoch'' = Some c \<Longrightarrow>
   load t (Some b) path w =
     \<lparr>raised =
        (if AList.delete ''current_epoch'' (AList.delete ''global_step'' remainder) \<noteq> []
         then Some (RuntimeError
                (dict_keys (AList.delete ''current_epoch'' (AList.delete ''global_step'' remainder))))
         else None),
      global_step_after = g, current_epoch_after = c, world_after = w1\<rparr>"
  by (simp add: load_def state_or_new_def dict_pop_def)

lemma load_without_global_step:
  "fabric_load path b w = Inr (remainder, w1) \<Longrightarrow>
   map_of remainder ''global_step'' = None \<Longrightarrow>
   load t (Some b) path w =
     \<lparr>raised = Some (KeyError ''global_step''), global_step_after = PInt (global_step t),
      current_epoch_after = PInt (current_epoch t), world_after = w1\<rparr>"
  by (simp add: load_def state_or_new_def dict_pop_def)

lemma extra_key_left:
  assumes gs: "''global_step'' \<in> set (dict_keys record)" "''global_step'' \<notin> S"
    and ce: "''current_epoch'' \<in> set (dict_keys record)" "''current_epoch'' \<notin> S"
    and x: "x \<in> set (dict_keys record)" "x \<notin> S"
           "x \<noteq> ''global_step''" "x \<noteq> ''current_epoch''"
  shows "\<exists>g c. map_of (filter (\<lambda>(k, v). k \<notin> S) record) ''global_step'' = Some g \<and>
     map_of (AList.delete ''global_step'' (filter (\<lambda>(k, v). k \<notin> S) record)) ''current_epoch'' = Some c \<and>
     x \<in> set (dict_keys (AList.delete ''current_epoch'' (AList.delete ''global_step'' (filter (\<lambda>(k, v). k \<notin> S) record))))"
proof -
  let ?rem = "filter (\<lambda>(k, v). k \<notin> S) record"
  have in_rem: "map_of ?rem k = (if k \<notin> S then map_of record k else None)" for k
    by (rule map_of_filter_key)
  obtain g where g: "map_of ?rem ''global_step'' = Some g"
    using key_present [OF gs(1)] gs(2) by (auto simp: in_rem)
  obtain c where c: "map_of (AList.delete ''global_step'' ?rem) ''current_epoch'' = Some c"
    using key_present [OF ce(1)] ce(2) by (auto simp: in_rem delete_conv')
  obtain v where "map_of (AList.delete ''current_epoch'' (AList.delete ''global_step'' ?rem)) x = Some v"
    using key_present [OF x(1)] x(2,3,4) by (auto simp: in_rem delete_conv')
  then have "x \<in> set (dict_keys (AList.delete ''current_epoch'' (AList.delete ''global_step'' ?rem)))"
    by (rule present_key)
  with g c show ?thesis by blast
qed

lemma keys_dict_update_counters:
  "set (dict_keys (dict_update d [(k1, v1), (k2, v2)])) = set (dict_keys d) \<union> {k1, k2}"
  by (auto simp: dict_update_def dict_keys_def update_keys)

lemma counters_only_left:
  assumes "\<forall>k\<in>set (dict_keys remainder). k = k1 \<or> k = k2"
  shows "AList.delete k2 (AList.delete k1 remainder) = []"
  using assms by (fastforce simp: AList.delete_eq filter_empty_conv dict_keys_def)

lemma load_saved:
  assumes keys: "set (dict_keys (heap w' b)) = set (dict_keys (heap w a)) - {''global_step'', ''current_epoch''}"
    and saved: "files w' (path_join (checkpoint_dir t) (checkpoint_name (current_epoch t))) =
               files (save t (Some a) w) (path_join (checkpoint_dir t) (checkpoint_name (current_epoch t)))"
  shows "\<exists>w1. load t' (Some b) (path_join (checkpoint_dir t) (checkpoint_name (current_epoch t))) w' =
           \<lparr>raised = None, global_step_after = PInt (global_step t),
            current_epoch_after = PInt (current_epoch t), world_after = w1\<rparr>"
proof -
  let ?path = "path_join (checkpoint_dir t) (checkpoint_name (current_epoch t))"
  let ?rec = "dict_update (heap w a)
     [(''global_step'', PInt (global_step t)), (''current_epoch'', PInt (current_epoch t))]"
  let ?rem = "filter (\<lambda>(k, v). k \<notin> set (dict_keys (heap w' b))) ?rec"
  have f: "files w' ?path = Some ?rec"
    using saved files_save [of t a w] by simp
  have look: "map_of ?rec k =
      (if k = ''current_epoch'' then Some (PInt (current_epoch t))
       else if k = ''global_step'' then Some (PInt (global_step t)) else map_of (heap w a) k)" for k
    by (simp add: map_of_dict_update)
  have cover: "\<forall>k\<in>set (dict_keys (heap w' b)). map_of ?rec k \<noteq> None"
    using keys key_present [of _ "heap w a"] by (auto simp: look)
  obtain w1 where fl: "fabric_load ?path b w' = Inr (?rem, w1)"
    using fabric_load_covered [OF f cover] by blast
  have g: "map_of ?rem ''global_step'' = Some (PInt (global_step t))"
    using keys by (simp add: map_of_filter_key look)
  have c: "map_of (AList.delete ''global_step'' ?rem) ''current_epoch'' = Some (PInt (current_epoch t))"
    using keys by (simp add: delete_conv' map_of_filter_key look)
  have "\<forall>k\<in>set (dict_keys ?rem). k = ''global_step'' \<or> k = ''current_epoch''"
  proof
    fix k assume "k \<in> set (dict_keys ?rem)"
    then have "k \<in> set (dict_keys ?rec)" and "k \<notin> set (dict_keys (heap w' b))"
      by (force simp: dict_keys_def)+
    then show "k = ''global_step'' \<or> k = ''current_epoch''"
      unfolding keys keys_dict_update_counters by blast
  qed
  then have none_left: "AList.delete ''current_epoch'' (AList.delete ''global_step'' ?rem) = []"
    by (rule counters_only_left)
  have "load t' (Some b) ?path w' =
      \<lparr>raised = None, global_step_after = PInt (global_step t),
       current_epoch_after = PInt (current_epoch t), world_after = w1\<rparr>"
    by (simp add: load_of_remainder [OF fl g c] none_left)
  then show ?thesis by blast
qed

lemma load_extra_key:
  assumes f: "files w' p = Some ckpt"
    and cover: "set (dict_keys (heap w' b)) \<subseteq> set (dict_keys ckpt)"
    and gs: "''global_step'' \<in> set (dict_keys ckpt)" "''global_step'' \<notin> set (dict_keys (heap w' b))"
    and ce: "''current_epoch'' \<in> set (dict_keys ckpt)" "''current_epoch'' \<notin> set (dict_keys (heap w' b))"
    and x: "x \<in> set (dict_keys ckpt)" "x \<notin> set (dict_keys (heap w' b))"
           "x \<noteq> ''global_step''" "x \<noteq> ''current_epoch''"
  shows "\<exists>ks. x \<in> set ks \<and> raised (load t' (Some b) p w') = Some (RuntimeError ks)"
proof -
  let ?rem = "filter (\<lambda>(k, v). k \<notin> set (dict_keys (heap w' b))) ckpt"
  let ?left = "AList.delete ''current_epoch'' (AList.delete ''global_step'' ?rem)"
  obtain w1 where fl: "fabric_load p b w' = Inr (?rem, w1)"
    using fabric_load_subset [OF f cover] by blast
  obtain g c where g: "map_of ?rem ''global_step'' = Some g"
    and c: "map_of (AList.delete ''global_step'' ?rem) ''current_epoch'' = Some c"
    and x_left: "x \<in> set (dict_keys ?left)"
    using extra_key_left [OF gs ce x] by blast
  from x_left have "?left \<noteq> []" by (auto simp: dict_keys_def)
  then have "raised (load t' (Some b) p w') = Some (RuntimeError (dict_keys ?left))"
    by (simp add: load_of_remainder [OF fl g c])
  with x_left show ?thesis by blast
qed

lemma load_counter_in_state:
  assumes f: "files w' p = Some ckpt"
    and cover: "set (dict_keys (heap w' b)) \<subseteq> set (dict_keys ckpt)"
    and gs: "''global_step'' \<in> set (dict_keys (heap w' b))"
  shows "raised (load t' (Some b) p w') = Some (KeyError ''global_step'') \<and>
         global_step_after (load t' (Some b) p w') = PInt (global_step t') \<and>
         current_epoch_after (load t' (Some b) p w') = PInt (current_epoch t')"
proof -
  let ?rem = "filter (\<lambda>(k, v). k \<notin> set (dict_keys (heap w' b))) ckpt"
  obtain w1 where fl: "fabric_load p b w' = Inr (?rem, w1)"
    using fabric_load_subset [OF f cover] by blast
  have "map_of ?rem ''global_step'' = None"
    using gs by (simp add: map_of_filter_key)
  from load_without_global_step [OF fl this] show ?thesis by simp
qed

text \<open>
  Claim C7, as stated, fails on the code: a Trainer at global step 15 saves after epoch 3
  into the state mapping at address 0, and a new Trainer loads the produced checkpoint
  with that same mapping, which \<^verbatim>\<open>save\<close> has extended by the two counters. The
  backend restores every key the mapping names, the counters included, so the leftover
  has no \<open>global_step\<close>: \<^verbatim>\<open>load\<close> raises \<^verbatim>\<open>KeyError\<close> and the new Trainer
  keeps its counters 0 and 0, although the file holds 15 and 3.
\<close>

theorem checkpoint_round_trip_counterexample:
  "raised (load new_trainer (Some 0) ''logs/checkpoints/epoch-0003.ckpt''
      (save (new_trainer\<lparr>global_step := 15, current_epoch := 3\<rparr>) (Some 0)
         (new_world\<lparr>heap := (\<lambda>a. components)\<rparr>))) = Some (KeyError ''global_step'') \<and>
   global_step_after (load new_trainer (Some 0) ''logs/checkpoints/epoch-0003.ckpt''
      (save (new_trainer\<lparr>global_step := 15, current_epoch := 3\<rparr>) (Some 0)
         (new_world\<lparr>heap := (\<lambda>a. components)\<rparr>))) = PInt 0 \<and>
   current_epoch_after (load new_trainer (Some 0) ''logs/checkpoints/epoch-0003.ckpt''
      (save (new_trainer\<lparr>global_step := 15, current_epoch := 3\<rparr>) (Some 0)
         (new_world\<lparr>heap := (\<lambda>a. components)\<rparr>))) = PInt 0 \<and>
   files (save (new_trainer\<lparr>global_step := 15, current_epoch := 3\<rparr>) (Some 0)
         (new_world\<lparr>heap := (\<lambda>a. components)\<rparr>)) ''logs/checkpoints/epoch-0003.ckpt'' =
     Some (components @ [(''global_step'', PInt 15), (''current_epoch'', PInt 3)])"
  by code_simp

text \<open>
  Claim C7, amended: when the mapping given to \<^verbatim>\<open>load\<close> names the components of the
  saved state and not the two counters (its keys are those of the mapping given to
  \<^verbatim>\<open>save\<close> but \<open>global_step\<close> and \<open>current_epoch\<close>), loading the file that
  \<^verbatim>\<open>save\<close> wrote returns normally with the \<open>global_step\<close> and \<open>current_epoch\<close> of
  the saving Trainer \<open>t\<close>, for every loading Trainer \<open>t'\<close>. When a persisted record has
  the expected components (the keys of the mapping given to \<^verbatim>\<open>load\<close>, the counters not
  among them), the two counters and a further key \<open>x\<close>, \<^verbatim>\<open>load\<close> does not complete:
  it raises \<^verbatim>\<open>RuntimeError\<close> on the unused keys, \<open>x\<close> among them. And when the
  mapping given to \<^verbatim>\<open>load\<close> names \<open>global_step\<close> itself (as the mapping does that
  \<^verbatim>\<open>save\<close> has extended), \<^verbatim>\<open>load\<close> raises \<^verbatim>\<open>KeyError\<close> and the counters of the
  loading Trainer stay as they were.
\<close>

theorem checkpoint_round_trip:
  "(files w' (path_join (checkpoint_dir t) (checkpoint_name (current_epoch t))) =
      files (save t (Some a) w) (path_join (checkpoint_dir t) (checkpoint_name (current_epoch t))) \<and>
    set (dict_keys (heap w' b)) =
      set (dict_keys (heap w a)) - {''global_step'', ''current_epoch''} \<longrightarrow>
    raised (load t' (Some b) (path_join (checkpoint_dir t) (checkpoint_name (current_epoch t))) w') = None \<and>
    global_step_after (load t' (Some b) (path_join (checkpoint_dir t) (checkpoint_name (current_epoch t))) w') =
      PInt (global_step t) \<and>
    current_epoch_after (load t' (Some b) (path_join (checkpoint_dir t) (checkpoint_name (current_epoch t))) w') =
      PInt (current_epoch t)) \<and>
   (files w'' p = Some ckpt \<and>
    set (dict_keys (heap w'' c)) \<union> {''global_step'', ''current_epoch''} \<subseteq> set (dict_keys ckpt) \<and>
    ''global_step'' \<notin> set (dict_keys (heap w'' c)) \<and>
    ''current_epoch'' \<notin> set (dict_keys (heap w'' c)) \<and>
    x \<in> set (dict_keys ckpt) \<and> x \<notin> set (dict_keys (heap w'' c)) \<and>
    x \<noteq> ''global_step'' \<and> x \<noteq> ''current_epoch'' \<longrightarrow>
    (\<exists>ks. x \<in> set ks \<and> raised (load t'' (Some c) p w'') = Some (RuntimeError ks))) \<and>
   (files v q = Some saved \<and>
    set (dict_keys (heap v d)) \<subseteq> set (dict_keys saved) \<and>
    ''global_step'' \<in> set (dict_keys (heap v d)) \<longrightarrow>
    raised (load u (Some d) q v) = Some (KeyError ''global_step'') \<and>
    global_step_after (load u (Some d) q v) = PInt (global_step u) \<and>
    current_epoch_after (load u (Some d) q v) = PInt (current_epoch u))"
proof (intro conjI impI)
  assume h: "files w' (path_join (checkpoint_dir t) (checkpoint_name (current_epoch t))) =
      files (save t (Some a) w) (path_join (checkpoint_dir t) (checkpoint_name (current_epoch t))) \<and>
    set (dict_keys (heap w' b)) =
      set (dict_keys (heap w a)) - {''global_step'', ''current_epoch''}"
  then obtain w1 where l: "load t' (Some b) (path_join (checkpoint_dir t) (checkpoint_name (current_epoch t))) w' =
           \<lparr>raised = None, global_step_after = PInt (global_step t),
            current_epoch_after = PInt (current_epoch t), world_after = w1\<rparr>"
    using load_saved [of w' b w a t t'] by blast
  show "raised (load t' (Some b) (path_join (checkpoint_dir t) (checkpoint_name (current_epoch t))) w') = None"
    by (simp add: l)
  show "global_step_after (load t' (Some b) (path_join (checkpoint_dir t) (checkpoint_name (current_epoch t))) w') =
      PInt (global_step t)"
    by (simp add: l)
  show "current_epoch_after (load t' (Some b) (path_join (checkpoint_dir t) (checkpoint_name (current_epoch t))) w') =
      PInt (current_epoch t)"
    by (simp add: l)
next
  assume h: "files w'' p = Some ckpt \<and>
    set (dict_keys (heap w'' c)) \<union> {''global_step'', ''current_epoch''} \<subseteq> set (dict_keys ckpt) \<and>
    ''global_step'' \<notin> set (dict_keys (heap w'' c)) \<and>
    ''current_epoch'' \<notin> set (dict_keys (heap w'' c)) \<and>
    x \<in> set (dict_keys ckpt) \<and> x \<notin> set (dict_keys (heap w'' c)) \<and>
    x \<noteq> ''global_step'' \<and> x \<noteq> ''current_epoch''"
  show "\<exists>ks. x \<in> set ks \<and> raised (load t'' (Some c) p w'') = Some (RuntimeError ks)"
  proof (rule load_extra_key)
    show "files w'' p = Some ckpt" using h by simp
    show "set (dict_keys (heap w'' c)) \<subseteq> set (dict_keys ckpt)" using h by auto
    show "''global_step'' \<in> set (dict_keys ckpt)" using h by auto
    show "''global_step'' \<notin> set (dict_keys (heap w'' c))" using h by simp
    show "''current_epoch'' \<in> set (dict_keys ckpt)" using h by auto
    show "''current_epoch'' \<notin> set (dict_keys (heap w'' c))" using h by simp
    show "x \<in> set (dict_keys ckpt)" using h by simp
    show "x \<notin> set (dict_keys (heap w'' c))" using h by simp
    show "x \<noteq> ''global_step''" using h by simp
    show "x \<noteq> ''current_epoch''" using h by simp
  qed
next
  assume h: "files v q = Some saved \<and>
    set (dict_keys (heap v d)) \<subseteq> set (dict_keys saved) \<and>
    ''global_step'' \<in> set (dict_keys (heap v d))"
  then have k: "raised (load u (Some d) q v) = Some (KeyError ''global_step'') \<and>
         global_step_after (load u (Some d) q v) = PInt (global_step u) \<and>
         current_epoch_after (load u (Some d) q v) = PInt (current_epoch u)"
    using load_counter_in_state [of v q saved d u] by blast
  show "raised (load u (Some d) q v) = Some (KeyError ''global_step'')" using k by simp
  show "global_step_after (load u (Some d) q v) = PInt (global_step u)" using k by simp
  show "current_epoch_after (load u (Some d) q v) = PInt (current_epoch u)" using k by simp
qed

text \<open>
  The instance: the Trainer saves after epoch 3 at global step 15, into a state mapping
  that still holds the counters of the previous save; a new Trainer loads the file into
  a mapping of the three components; the same load of a record with the further key
  \<^verbatim>\<open>extra\<close>; and the load into a mapping that holds the counters.
\<close>

theorem checkpoint_round_trip_witness:
  "(raised (load new_trainer (Some 0)
        (path_join (checkpoint_dir (new_trainer\<lparr>global_step := 15, current_epoch := 3\<rparr>))
           (checkpoint_name (current_epoch (new_trainer\<lparr>global_step := 15, current_epoch := 3\<rparr>))))
        (new_world\<lparr>heap := (\<lambda>a. components),
           files := files (save (new_trainer\<lparr>global_step := 15, current_epoch := 3\<rparr>) (Some 0)
              (new_world\<lparr>heap := (\<lambda>a. components @
                  [(''global_step'', PInt 10), (''current_epoch'', PInt 2)])\<rparr>))\<rparr>)) = None \<and>
    global_step_after (load new_trainer (Some 0)
        (path_join (checkpoint_dir (new_trainer\<lparr>global_step := 15, current_epoch := 3\<rparr>))
           (checkpoint_name (current_epoch (new_trainer\<lparr>global_step := 15, current_epoch := 3\<rparr>))))
        (new_world\<lparr>heap := (\<lambda>a. components),
           files := files (save (new_trainer\<lparr>global_step := 15, current_epoch := 3\<rparr>) (Some 0)
              (new_world\<lparr>heap := (\<lambda>a. components @
                  [(''global_step'', PInt 10), (''current_epoch'', PInt 2)])\<rparr>))\<rparr>)) = PInt 15 \<and>
    current_epoch_after (load new_trainer (Some 0)
        (path_join (checkpoint_dir (new_trainer\<lparr>global_step := 15, current_epoch := 3\<rparr>))
           (checkpoint_name (current_epoch (new_trainer\<lparr>global_step := 15, current_epoch := 3\<rparr>))))
        (new_world\<lparr>heap := (\<lambda>a. components),
           files := files (save (new_trainer\<lparr>global_step := 15, current_epoch := 3\<rparr>) (Some 0)
              (new_world\<lparr>heap := (\<lambda>a. components @
                  [(''global_step'', PInt 10), (''current_epoch'', PInt 2)])\<rparr>))\<rparr>)) = PInt 3) \<and>
   (\<exists>ks. ''extra'' \<in> set ks \<and>
      raised (load new_trainer (Some 0) ''logs/checkpoints/epoch-0003.ckpt''
        (new_world\<lparr>heap := (\<lambda>a. components),
           files := [''logs/checkpoints/epoch-0003.ckpt'' \<mapsto>
              components @ [(''global_step'', PInt 15), (''current_epoch'', PInt 3), (''extra'', PNone)]]\<rparr>))
        = Some (RuntimeError ks)) \<and>
   raised (load new_trainer (Some 0) ''logs/checkpoints/epoch-0003.ckpt''
      (new_world\<lparr>heap := (\<lambda>a. components @ [(''global_step'', PInt 15), (''current_epoch'', PInt 3)]),
         files := [''logs/checkpoints/epoch-0003.ckpt'' \<mapsto>
            components @ [(''global_step'', PInt 15), (''current_epoch'', PInt 3)]]\<rparr>))
     = Some (KeyError ''global_step'')"
  using checkpoint_round_trip
    [where w = "new_world\<lparr>heap := (\<lambda>a. components @
                  [(''global_step'', PInt 10), (''current_epoch'', PInt 2)])\<rparr>" and a = 0
       and t = "new_trainer\<lparr>global_step := 15, current_epoch := 3\<rparr>"
       and t' = new_trainer and b = 0
       and w' = "new_world\<lparr>heap := (\<lambda>a. components),
           files := files (save (new_trainer\<lparr>global_step := 15, current_epoch := 3\<rparr>) (Some 0)
              (new_world\<lparr>heap := (\<lambda>a. components @
                  [(''global_step'', PInt 10), (''current_epoch'', PInt 2)])\<rparr>))\<rparr>"
       and t'' = new_trainer and c = 0
       and w'' = "new_world\<lparr>heap := (\<lambda>a. components),
           files := [''logs/checkpoints/epoch-0003.ckpt'' \<mapsto>
              components @ [(''global_step'', PInt 15), (''current_epoch'', PInt 3), (''extra'', PNone)]]\<rparr>"
       and p = "''logs/checkpoints/epoch-0003.ckpt''"
       and ckpt = "components @ [(''global_step'', PInt 15), (''current_epoch'', PInt 3), (''extra'', PNone)]"
       and x = "''extra''"
       and u = new_trainer and d = 0
       and v = "new_world\<lparr>heap := (\<lambda>a. components @ [(''global_step'', PInt 15), (''current_epoch'', PInt 3)]),
         files := [''logs/checkpoints/epoch-0003.ckpt'' \<mapsto>
            components @ [(''global_step'', PInt 15), (''current_epoch'', PInt 3)]]\<rparr>"
       and q = "''logs/checkpoints/epoch-0003.ckpt''"
       and saved = "components @ [(''global_step'', PInt 15), (''current_epoch'', PInt 3)]"]
  by (simp add: components_def dict_keys_def new_world_def insert_Diff_if)

section \<open>When the scheduler is stepped\<close>





section \<open>The latest checkpoint\<close>

lemma last_sorted_Max:
  fixes xs :: "'a::linorder list"
  shows "sorted xs \<Longrightarrow> xs \<noteq> [] \<Longrightarrow> last xs = Max (set xs)"
proof (induction xs)
  case Nil
  then show ?case by simp
next
  case (Cons x xs)
  show ?case
  proof (cases "xs = []")
    case True
    then show ?thesis by simp
  next
    case False
    with Cons have "last xs = Max (set xs)" by simp
    moreover have "x \<le> Max (set xs)"
      using Cons.prems False by (simp add: Max_ge_iff) (meson last_in_set)
    ultimately show ?thesis
      using False by (simp add: max_def)
  qed
qed

lemma sort_Nil_iff:
  fixes xs :: "'a::linorder list"
  shows "sort xs = [] \<longleftrightarrow> xs = []"
  by (metis length_sort length_0_conv)

lemma last_sort_Max:
  fixes xs :: "'a::linorder list"
  shows "xs \<noteq> [] \<Longrightarrow> last (sort xs) = Max (set xs)"
  using last_sorted_Max [of "sort xs"] by (simp add: sort_Nil_iff)

lemma nonempty_of_set_eq: "set xs = set (y # ys) \<Longrightarrow> xs \<noteq> []"
  by auto

lemma sort_three_checkpoints:
  "sort [''epoch-0001.ckpt'', ''epoch-0010.ckpt'', ''epoch-0002.ckpt''] =
     [''epoch-0001.ckpt'', ''epoch-0002.ckpt'', ''epoch-0010.ckpt'']"
  by code_simp

lemma Max_three_checkpoints:
  "Max (set [''epoch-0001.ckpt'', ''epoch-0010.ckpt'', ''epoch-0002.ckpt'']) = ''epoch-0010.ckpt''"
  using last_sort_Max [of "[''epoch-0001.ckpt'', ''epoch-0010.ckpt'', ''epoch-0002.ckpt'']"]
  by (simp only: sort_three_checkpoints) simp

lemma listing_world_ckpts:
  "isdir listing_world ''ckpts'' \<and>
   listdir listing_world ''ckpts'' = [''epoch-0001.ckpt'', ''epoch-0010.ckpt'', ''epoch-0002.ckpt'']"
  by (simp add: listing_world_def isdir_def listdir_def dir_key_def rstrip_slashes_def)

text \<open>
  Claim C8, as stated, fails on the code: for the directory \<^verbatim>\<open>ckpts\<close> with the three
  checkpoints of the claim the result is the path \<^verbatim>\<open>ckpts/epoch-0010.ckpt\<close>, not the
  file name \<^verbatim>\<open>epoch-0010.ckpt\<close>.
\<close>

theorem get_latest_checkpoint_counterexample:
  "isdir listing_world ''ckpts'' \<and>
   listdir listing_world ''ckpts'' = [''epoch-0001.ckpt'', ''epoch-0010.ckpt'', ''epoch-0002.ckpt''] \<and>
   get_latest_checkpoint listing_world ''ckpts'' = Some ''ckpts/epoch-0010.ckpt'' \<and>
   get_latest_checkpoint listing_world ''ckpts'' \<noteq> Some ''epoch-0010.ckpt''"
  by (simp add: get_latest_checkpoint_def listing_world_ckpts sort_three_checkpoints path_join_def)

text \<open>
  Claim C8, amended: \<^verbatim>\<open>get_latest_checkpoint(dir)\<close> returns none when the directory
  is absent or empty, and otherwise the path \<^verbatim>\<open>os.path.join(dir, name)\<close> of the entry
  \<open>name\<close> that is last in the lexicographic order of strings; for a directory whose
  entries are \<^verbatim>\<open>epoch-0001.ckpt\<close>, \<^verbatim>\<open>epoch-0010.ckpt\<close> and \<^verbatim>\<open>epoch-0002.ckpt\<close> this
  is the join of the directory and \<^verbatim>\<open>epoch-0010.ckpt\<close>.
\<close>

theorem get_latest_checkpoint_path:
  "get_latest_checkpoint w d =
     (if isdir w d \<and> listdir w d \<noteq> [] then Some (path_join d (Max (set (listdir w d)))) else None) \<and>
   (isdir w d \<and>
    set (listdir w d) = set [''epoch-0001.ckpt'', ''epoch-0010.ckpt'', ''epoch-0002.ckpt''] \<longrightarrow>
    get_latest_checkpoint w d = Some (path_join d ''epoch-0010.ckpt''))"
proof -
  have general: "get_latest_checkpoint w d =
     (if isdir w d \<and> listdir w d \<noteq> [] then Some (path_join d (Max (set (listdir w d)))) else None)"
    by (simp add: get_latest_checkpoint_def Let_def last_sort_Max sort_Nil_iff)
  have "get_latest_checkpoint w d = Some (path_join d ''epoch-0010.ckpt'')"
    if "isdir w d"
      and "set (listdir w d) = set [''epoch-0001.ckpt'', ''epoch-0010.ckpt'', ''epoch-0002.ckpt'']"
  proof -
    have nonempty: "listdir w d \<noteq> []"
      using that(2) by (rule nonempty_of_set_eq)
    have "Max (set (listdir w d)) = ''epoch-0010.ckpt''"
      by (simp only: that(2) Max_three_checkpoints)
    with that(1) nonempty show ?thesis
      by (simp only: general) simp
  qed
  with general show ?thesis by blast
qed

theorem get_latest_checkpoint_path_witness:
  "get_latest_checkpoint listing_world ''ckpts'' = Some ''ckpts/epoch-0010.ckpt'' \<and>
   get_latest_checkpoint listing_world ''logs/checkpoints'' = None"
  using get_latest_checkpoint_path [of listing_world "''ckpts''"]
    get_latest_checkpoint_path [of listing_world "''logs/checkpoints''"]
  by (simp add: listing_world_ckpts path_join_def)
    (simp add: isdir_def listing_world_def dir_key_def rstrip_slashes_def)

section \<open>Resuming at the start of fit\<close>

text \<open>
  Claim C9, on the code: the Trainer's \<open>checkpoint_dir\<close> is \<^verbatim>\<open>logs/checkpoints\<close>,
  which does not exist; \<^verbatim>\<open>fit\<close> is given \<^verbatim>\<open>ckpt_path = "resume"\<close>, a directory whose
  latest checkpoint was written after epoch 2, and \<open>max_epochs = 2\<close>. The checkpoint of
  the supplied directory is not loaded: \<^verbatim>\<open>fit\<close> trains two epochs from the counters
  of the new Trainer (two optimizer steps over the loader of one batch), where loading
  it would have met \<open>max_epochs\<close> at once.
\<close>

theorem fit_ignores_supplied_checkpoint_dir:
  "isdir resume_world ''resume'' \<and>
   get_latest_checkpoint resume_world ''resume'' = Some ''resume/epoch-0002.ckpt'' \<and>
   fit_resume 0 (Some ''resume'') (new_trainer\<lparr>max_epochs := Some 2\<rparr>, resume_world) =
     Inr (new_trainer\<lparr>max_epochs := Some 2\<rparr>, resume_world) \<and>
   (case fit 3 (constant_module (OTensor 0.5) (POptimizer 0)) [0] None (Some ''resume'')
           (new_trainer\<lparr>max_epochs := Some 2\<rparr>, resume_world) of
      Some (Inr tw) \<Rightarrow>
        current_epoch (fst tw) = 2 \<and> global_step (fst tw) = 2 \<and> optimizer_steps (snd tw) = 2
    | _ \<Rightarrow> False)"
proof (intro conjI)
  show "isdir resume_world ''resume''"
    by (simp add: resume_world_def isdir_def dir_key_def rstrip_slashes_def)
  show "get_latest_checkpoint resume_world ''resume'' = Some ''resume/epoch-0002.ckpt''"
    by (simp add: resume_world_def get_latest_checkpoint_def isdir_def listdir_def dir_key_def
        rstrip_slashes_def path_join_def)
  show "fit_resume 0 (Some ''resume'') (new_trainer\<lparr>max_epochs := Some 2\<rparr>, resume_world) =
     Inr (new_trainer\<lparr>max_epochs := Some 2\<rparr>, resume_world)"
    by (simp add: fit_resume_def get_latest_checkpoint_def isdir_def dir_key_def rstrip_slashes_def
        new_trainer_def resume_world_def new_world_def)
  show "(case fit 3 (constant_module (OTensor 0.5) (POptimizer 0)) [0] None (Some ''resume'')
           (new_trainer\<lparr>max_epochs := Some 2\<rparr>, resume_world) of
      Some (Inr tw) \<Rightarrow>
        current_epoch (fst tw) = 2 \<and> global_step (fst tw) = 2 \<and> optimizer_steps (snd tw) = 2
    | _ \<Rightarrow> False)"
    by code_simp
qed

text \<open>Whatever directory is supplied, nothing is loaded when \<open>checkpoint_dir\<close> has no checkpoint.\<close>

lemma fit_resume_reads_checkpoint_dir:
  "get_latest_checkpoint (snd tw) (checkpoint_dir (fst tw)) = None \<Longrightarrow>
   fit_resume state ckpt_path tw = Inr tw"
  by (simp add: fit_resume_def split: option.splits)

text \<open>
  The rest of claim C9 holds on the code: when the supplied directory is the Trainer's
  \<open>checkpoint_dir\<close>, the checkpoint is loaded, and a restored epoch that meets
  \<open>max_epochs\<close> sets the stop flag, so that no training epoch runs.
\<close>

lemma fit_resume_same_dir_stops:
  "(case fit 3 (constant_module (OTensor 0.5) (POptimizer 0)) [0] None (Some ''resume'')
           (new_trainer\<lparr>max_epochs := Some 2, checkpoint_dir := ''resume''\<rparr>, resume_world) of
      Some (Inr tw) \<Rightarrow>
        current_epoch (fst tw) = 2 \<and> global_step (fst tw) = 10 \<and> optimizer_steps (snd tw) = 0
    | _ \<Rightarrow> False)"
  by code_simp

text \<open>
  The end-to-end example of the spec: \<open>max_epochs = 3\<close>, validation every epoch, five
  batches, accumulation factor 1. After \<^verbatim>\<open>fit\<close> the Trainer is at epoch 3 and global
  step 15, the stop flag is reset, and the checkpoint directory lists three files.
\<close>

lemma fit_end_to_end:
  "(case fit 5 (constant_module (OTensor 0.5) (POptimizer 0)) [0, 1, 2, 3, 4] (Some [0]) None
           (new_trainer\<lparr>max_epochs := Some 3\<rparr>, new_world) of
      Some (Inr tw) \<Rightarrow>
        current_epoch (fst tw) = 3 \<and> global_step (fst tw) = 15 \<and> \<not> should_stop (fst tw) \<and>
        dirs (snd tw) ''logs/checkpoints'' =
          Some [''epoch-0003.ckpt'', ''epoch-0002.ckpt'', ''epoch-0001.ckpt'']
    | _ \<Rightarrow> False)"
  by code_simp

end
